theory Spec2Isabelle
  imports Complex_Main
begin

text \<open>
  A model of the sign-language translator, the caption auto-save, the authentication
  context and the profile trigger of the application, and the properties its specification
  states of them.

  File names are relative to the project directory
  \<^verbatim>\<open>finalinclusivelearn/sign-speak-sync-caption/sign-speak-sync-notes-main\<close>. Two files
  are cited by their place in the source tree, \<^verbatim>\<open>unnamed/part_000\<close> (the database
  setup script) and \<^verbatim>\<open>unnamed/part_001\<close> (a second copy of the authentication
  context).
\<close>

section \<open>JavaScript numbers\<close>

text \<open>
  A JavaScript number is an IEEE 754 double: a finite value, one of the two infinities, or
  \<^verbatim>\<open>NaN\<close>. \<open>Num v\<close> is the finite double of value \<open>v\<close>. The two zeros are one value
  here: they compare equal, and no operation below tells them apart.
\<close>

datatype js_number = Num real | Infinity | MinusInfinity | NaN

text \<open>
  The comparisons \<^verbatim>\<open>a < b\<close>, \<^verbatim>\<open>a > b\<close> and \<^verbatim>\<open>a <= b\<close>. They are exact, and false
  as soon as an operand is \<^verbatim>\<open>NaN\<close>.
\<close>

definition js_lt :: "js_number \<Rightarrow> js_number \<Rightarrow> bool" where
  "js_lt a b =
     (case a of
        Num x \<Rightarrow> (case b of Num y \<Rightarrow> x < y | Infinity \<Rightarrow> True | MinusInfinity \<Rightarrow> False | NaN \<Rightarrow> False)
      | Infinity \<Rightarrow> False
      | MinusInfinity \<Rightarrow> (case b of Num y \<Rightarrow> True | Infinity \<Rightarrow> True | MinusInfinity \<Rightarrow> False | NaN \<Rightarrow> False)
      | NaN \<Rightarrow> False)"

definition js_gt :: "js_number \<Rightarrow> js_number \<Rightarrow> bool" where
  "js_gt a b = js_lt b a"

definition js_le :: "js_number \<Rightarrow> js_number \<Rightarrow> bool" where
  "js_le a b = (a \<noteq> NaN \<and> b \<noteq> NaN \<and> \<not> js_lt b a)"

subsection \<open>Rounding to the nearest double\<close>

text \<open>
  A double has 53 significant bits. Its binary exponent ranges from -1022 to 1023, and
  below \<open>two_to (- 1022)\<close> the doubles are the multiples of \<open>two_to (- 1074)\<close>. An exact
  result is rounded to the nearest double, a tie to the one whose last bit is 0, and a
  result that rounds to \<open>two_to 1024\<close> or beyond is infinite. \<open>two_to e\<close> is the power of
  two of exponent \<open>e\<close>.
\<close>

definition two_to :: "int \<Rightarrow> real" where
  "two_to e = (if 0 \<le> e then 2 ^ nat e else 1 / 2 ^ nat (- e))"

definition round_half_even :: "real \<Rightarrow> int" where
  "round_half_even q =
     (let f = \<lfloor>q\<rfloor>; r = q - of_int f
      in if r < 1 / 2 then f else if 1 / 2 < r then f + 1 else if even f then f else f + 1)"

text \<open>The binary exponent of a positive real: \<open>two_to (binade a) \<le> a < two_to (binade a + 1)\<close>.\<close>

definition binade :: "real \<Rightarrow> int" where
  "binade a = \<lfloor>log 2 a\<rfloor>"

definition round_to_double :: "real \<Rightarrow> js_number" where
  "round_to_double x =
     (if x = 0 then Num 0
      else
        let e = max (binade \<bar>x\<bar>) (- 1022);
            ulp = two_to (e - 52);
            r = of_int (round_half_even (\<bar>x\<bar> / ulp)) * ulp
        in if two_to 1024 \<le> r then (if 0 < x then Infinity else MinusInfinity)
           else Num (if 0 < x then r else - r))"

text \<open>A decimal literal of the source, such as \<^verbatim>\<open>0.1\<close>, is the double nearest to it.\<close>

definition js_literal :: "real \<Rightarrow> js_number" where
  "js_literal x = round_to_double x"

subsection \<open>Arithmetic\<close>

text \<open>
  \<^verbatim>\<open>a + b\<close> and \<^verbatim>\<open>a - b\<close> on numbers. The language fixes them: the exact sum rounded
  to the nearest double, \<^verbatim>\<open>NaN\<close> for a \<^verbatim>\<open>NaN\<close> operand and for the sum of the two
  opposite infinities; \<^verbatim>\<open>a - b\<close> is \<^verbatim>\<open>a + (-b)\<close>.
\<close>

definition js_neg :: "js_number \<Rightarrow> js_number" where
  "js_neg a =
     (case a of Num x \<Rightarrow> Num (- x) | Infinity \<Rightarrow> MinusInfinity | MinusInfinity \<Rightarrow> Infinity
      | NaN \<Rightarrow> NaN)"

definition js_add :: "js_number \<Rightarrow> js_number \<Rightarrow> js_number" where
  "js_add a b =
     (case a of
        NaN \<Rightarrow> NaN
      | Infinity \<Rightarrow> (case b of NaN \<Rightarrow> NaN | MinusInfinity \<Rightarrow> NaN | Infinity \<Rightarrow> Infinity | Num y \<Rightarrow> Infinity)
      | MinusInfinity \<Rightarrow>
          (case b of NaN \<Rightarrow> NaN | Infinity \<Rightarrow> NaN | MinusInfinity \<Rightarrow> MinusInfinity
           | Num y \<Rightarrow> MinusInfinity)
      | Num x \<Rightarrow>
          (case b of NaN \<Rightarrow> NaN | Infinity \<Rightarrow> Infinity | MinusInfinity \<Rightarrow> MinusInfinity
           | Num y \<Rightarrow> round_to_double (x + y)))"

definition js_sub :: "js_number \<Rightarrow> js_number \<Rightarrow> js_number" where
  "js_sub a b = js_add a (js_neg b)"

text \<open>
  The language leaves the results of \<^verbatim>\<open>Math.pow\<close> and \<^verbatim>\<open>Math.sqrt\<close> to the
  implementation, as approximations of the exact results. The \<^verbatim>\<open>Math\<close> object is
  therefore a parameter of what follows, and a statement about every \<^verbatim>\<open>Math\<close> holds
  whatever the engine computes. The source calls \<^verbatim>\<open>Math.pow\<close> with the exponent 2 only:
  \<open>Math_pow2 M a\<close> is \<^verbatim>\<open>Math.pow(a, 2)\<close>.
\<close>

record js_Math =
  Math_pow2 :: "js_number \<Rightarrow> js_number"
  Math_sqrt :: "js_number \<Rightarrow> js_number"

text \<open>
  The \<^verbatim>\<open>Math\<close> of the engines in use: the square and the square root rounded to the
  nearest double. The square of an infinity is infinite, and the square root of a negative
  number is \<^verbatim>\<open>NaN\<close>.
\<close>

definition Math_nearest :: js_Math where
  "Math_nearest =
     \<lparr>Math_pow2 = (\<lambda>a. case a of Num x \<Rightarrow> round_to_double (x * x) | Infinity \<Rightarrow> Infinity
                       | MinusInfinity \<Rightarrow> Infinity | NaN \<Rightarrow> NaN),
      Math_sqrt = (\<lambda>a. case a of Num x \<Rightarrow> (if x < 0 then NaN else round_to_double (sqrt x))
                       | Infinity \<Rightarrow> Infinity | MinusInfinity \<Rightarrow> NaN | NaN \<Rightarrow> NaN)\<rparr>"

section \<open>The gesture classifier of the sign-language translator\<close>

text \<open>
  Source: \<^verbatim>\<open>src/components/SignLanguageTranslator.tsx\<close>, \<^verbatim>\<open>detectGesture\<close>
  (lines 847 to 881).

  A hand frame is the array of landmark points the hand-landmark model delivers. Each point
  carries the numbers \<^verbatim>\<open>x\<close>, \<^verbatim>\<open>y\<close> and \<^verbatim>\<open>z\<close>; they are the record fields
  \<open>lm_x\<close>, \<open>lm_y\<close> and \<open>lm_z\<close> here (a field called \<open>x\<close> would capture every variable
  of that name).
\<close>

record landmark =
  lm_x :: js_number
  lm_y :: js_number
  lm_z :: js_number

datatype js_error = TypeError

text \<open>
  \<^verbatim>\<open>landmarks[i]\<close>: the element, or \<^verbatim>\<open>undefined\<close> (here \<open>None\<close>) past the end of
  the array.
\<close>

definition landmark_at :: "landmark list \<Rightarrow> nat \<Rightarrow> landmark option" where
  "landmark_at landmarks i = (if i < length landmarks then Some (landmarks ! i) else None)"

text \<open>
  \<^verbatim>\<open>Math.sqrt(Math.pow(a.x - b.x, 2) + Math.pow(a.y - b.y, 2))\<close>: the distance in the image
  plane, as the source computes it, each step a double; \<^verbatim>\<open>z\<close> is not read.
\<close>

definition euclid :: "js_Math \<Rightarrow> landmark \<Rightarrow> landmark \<Rightarrow> js_number" where
  "euclid M a b =
     Math_sqrt M
       (js_add (Math_pow2 M (js_sub (lm_x a) (lm_x b)))
               (Math_pow2 M (js_sub (lm_y a) (lm_y b))))"

text \<open>
  The if/else chain of \<^verbatim>\<open>detectGesture\<close> on the two computed distances, in the source's
  order; \<open>None\<close> is the final \<^verbatim>\<open>return null\<close>.
\<close>

definition classify :: "js_number \<Rightarrow> js_number \<Rightarrow> string option" where
  "classify thumbIndexDist thumbMiddleDist =
     (if js_lt thumbIndexDist (js_literal 0.1) \<and> js_lt thumbMiddleDist (js_literal 0.1)
      then Some ''A''
      else if js_gt thumbIndexDist (js_literal 0.2) \<and> js_lt thumbMiddleDist (js_literal 0.1)
      then Some ''B''
      else if js_lt thumbIndexDist (js_literal 0.1) \<and> js_gt thumbMiddleDist (js_literal 0.2)
      then Some ''C''
      else if js_gt thumbIndexDist (js_literal 0.2) \<and> js_gt thumbMiddleDist (js_literal 0.2)
      then Some ''D''
      else None)"

text \<open>
  \<^verbatim>\<open>detectGesture\<close>. The guard returns \<^verbatim>\<open>null\<close> (here \<open>Inr None\<close>) for an empty
  array; the guard's other disjunct, \<^verbatim>\<open>!landmarks\<close>, is for a missing argument, which
  the parameter type \<^verbatim>\<open>any[]\<close> excludes. The six landmark reads yield \<^verbatim>\<open>undefined\<close>
  past the end of the array without failing; reading \<^verbatim>\<open>.x\<close> of an undefined thumb,
  index or middle tip raises a \<^verbatim>\<open>TypeError\<close> (here \<open>Inl TypeError\<close>). The ring tip,
  the pinky tip and the wrist are read and never used.
\<close>

definition detectGesture :: "js_Math \<Rightarrow> landmark list \<Rightarrow> js_error + string option" where
  "detectGesture M landmarks =
     (if length landmarks = 0 then Inr None
      else
        let thumbTip = landmark_at landmarks 4;
            indexTip = landmark_at landmarks 8;
            middleTip = landmark_at landmarks 12;
            ringTip = landmark_at landmarks 16;
            pinkyTip = landmark_at landmarks 20;
            wrist = landmark_at landmarks 0
        in
          (case thumbTip of
             None \<Rightarrow> Inl TypeError
           | Some thumb \<Rightarrow>
               (case indexTip of
                  None \<Rightarrow> Inl TypeError
                | Some index \<Rightarrow>
                    let thumbIndexDist = euclid M thumb index in
                      (case middleTip of
                         None \<Rightarrow> Inl TypeError
                       | Some middle \<Rightarrow>
                           let thumbMiddleDist = euclid M thumb middle in
                             Inr (classify thumbIndexDist thumbMiddleDist)))))"

text \<open>
  The two measurements of a frame, named as the source names them. They exist when the frame
  carries the landmarks they are taken between.
\<close>

definition thumbIndexDist :: "js_Math \<Rightarrow> landmark list \<Rightarrow> js_number option" where
  "thumbIndexDist M landmarks =
     (case (landmark_at landmarks 4, landmark_at landmarks 8) of
        (Some thumb, Some index) \<Rightarrow> Some (euclid M thumb index)
      | _ \<Rightarrow> None)"

definition thumbMiddleDist :: "js_Math \<Rightarrow> landmark list \<Rightarrow> js_number option" where
  "thumbMiddleDist M landmarks =
     (case (landmark_at landmarks 4, landmark_at landmarks 12) of
        (Some thumb, Some middle) \<Rightarrow> Some (euclid M thumb middle)
      | _ \<Rightarrow> None)"

subsection \<open>The threshold table, as the specification words it\<close>

text \<open>
  The specification calls the classifier a static threshold table. The table below is
  written from those words, for comparison with \<open>classify\<close>: each computed distance falls
  into one of three bands, below the threshold 0.1, above the threshold 0.2, or neither, and
  a pair of bands selects the letter code.
\<close>

datatype band = Near | Gap | Far

definition band_of :: "js_number \<Rightarrow> band" where
  "band_of d =
     (if js_lt d (js_literal 0.1) then Near else if js_gt d (js_literal 0.2) then Far else Gap)"

definition threshold_table :: "band \<Rightarrow> band \<Rightarrow> string option" where
  "threshold_table index_band middle_band =
     (case (index_band, middle_band) of
        (Near, Near) \<Rightarrow> Some ''A''
      | (Far, Near) \<Rightarrow> Some ''B''
      | (Near, Far) \<Rightarrow> Some ''C''
      | (Far, Far) \<Rightarrow> Some ''D''
      | _ \<Rightarrow> None)"

subsection \<open>Sample frames\<close>

definition point :: "real \<Rightarrow> real \<Rightarrow> landmark" where
  "point a b = \<lparr>lm_x = js_literal a, lm_y = js_literal b, lm_z = Num 0\<rparr>"

text \<open>A hand of 21 landmarks, all at one point: every distance is 0.\<close>

definition closed_hand :: "landmark list" where
  "closed_hand = replicate 21 (point 0 0)"

text \<open>The same hand with the index and middle tips 0.125 away from the thumb tip.\<close>

definition half_open_hand :: "landmark list" where
  "half_open_hand = closed_hand[8 := point 0.125 0, 12 := point 0.125 0]"

text \<open>
  Three frames at the thresholds. In the first the exact distance from thumb tip to index
  tip is below one tenth and the computed one is the double 0.1; in the second the exact
  distance is above one tenth and the computed one is below the double 0.1; in the third the
  computed distance is the double 0.2, which is above one fifth.
\<close>

definition boundary_hand_1 :: "landmark list" where
  "boundary_hand_1 = closed_hand[8 := point 0.054 0.08416650165000325]"

definition boundary_hand_2 :: "landmark list" where
  "boundary_hand_2 = closed_hand[8 := point 0.06771707121083383 0.07358259486201109]"

definition boundary_hand_3 :: "landmark list" where
  "boundary_hand_3 = closed_hand[8 := point 0.12 0.16]"

section \<open>From gesture codes to phrases\<close>

text \<open>
  Source: \<^verbatim>\<open>src/components/SignLanguageTranslator.tsx\<close>,
  \<^verbatim>\<open>getTranslationFromGestures\<close> (lines 883 to 914).

  The two tables are object literals. A lookup \<^verbatim>\<open>table[key]\<close> finds the table's own
  entry, or else the member of that name which every object inherits from
  \<^verbatim>\<open>Object.prototype\<close>, or else \<^verbatim>\<open>undefined\<close>. An inherited member is a function or
  an object, never a string.
\<close>

definition gestureToText :: "(string \<times> string) list" where
  "gestureToText =
     [(''A'', ''Hello''),
      (''B'', ''Thank you''),
      (''C'', ''Please''),
      (''D'', ''Goodbye''),
      (''E'', ''Yes''),
      (''F'', ''No''),
      (''G'', ''Help''),
      (''H'', ''Water''),
      (''I'', ''Food''),
      (''J'', ''Bathroom'')]"

definition gestureSequences :: "(string \<times> string) list" where
  "gestureSequences =
     [(''AB'', ''Hello, thank you''),
      (''AC'', ''Hello, please''),
      (''AD'', ''Hello, goodbye''),
      (''AE'', ''Hello, yes''),
      (''AF'', ''Hello, no'')]"

datatype js_value = JString string | JInherited string

definition object_prototype_members :: "string list" where
  "object_prototype_members =
     [''constructor'', ''hasOwnProperty'', ''isPrototypeOf'', ''propertyIsEnumerable'',
      ''toLocaleString'', ''toString'', ''valueOf'', ''__proto__'',
      ''__defineGetter__'', ''__defineSetter__'', ''__lookupGetter__'', ''__lookupSetter__'']"

text \<open>\<^verbatim>\<open>table[key]\<close>; \<open>None\<close> is \<^verbatim>\<open>undefined\<close>.\<close>

definition js_get :: "(string \<times> string) list \<Rightarrow> string \<Rightarrow> js_value option" where
  "js_get table key =
     (case map_of table key of
        Some v \<Rightarrow> Some (JString v)
      | None \<Rightarrow> if key \<in> set object_prototype_members then Some (JInherited key) else None)"

text \<open>
  The truthy values, which \<^verbatim>\<open>if (v)\<close> and \<^verbatim>\<open>v || d\<close> let through: every value
  here but \<^verbatim>\<open>undefined\<close> and the empty string. \<open>truthy_value v\<close> is \<open>Some\<close> of the value
  when it is truthy.
\<close>

definition truthy_value :: "js_value option \<Rightarrow> js_value option" where
  "truthy_value v =
     (case v of
        None \<Rightarrow> None
      | Some (JString s) \<Rightarrow> if s = [] then None else Some (JString s)
      | Some (JInherited k) \<Rightarrow> Some (JInherited k))"

text \<open>
  \<^verbatim>\<open>gestures.slice(-2).join("")\<close>: the last two codes (all of them when there are fewer),
  concatenated.
\<close>

definition last_two_joined :: "string list \<Rightarrow> string" where
  "last_two_joined gestures = concat (drop (length gestures - 2) gestures)"

text \<open>
  \<^verbatim>\<open>gestures[gestures.length - 1]\<close> used as a property key: the last code, or, for the
  empty array, \<^verbatim>\<open>undefined\<close>, which as a key reads \<^verbatim>\<open>"undefined"\<close>.
\<close>

definition last_gesture_key :: "string list \<Rightarrow> string" where
  "last_gesture_key gestures = (if gestures = [] then ''undefined'' else last gestures)"

text \<open>\<^verbatim>\<open>gestureToText[lastGesture] || "Unknown gesture"\<close>.\<close>

definition single_translation :: "string \<Rightarrow> js_value" where
  "single_translation lastGesture =
     (case truthy_value (js_get gestureToText lastGesture) of
        Some v \<Rightarrow> v
      | None \<Rightarrow> JString ''Unknown gesture'')"

definition getTranslationFromGestures :: "string list \<Rightarrow> js_value" where
  "getTranslationFromGestures gestures =
     (let sequence = last_two_joined gestures
      in case truthy_value (js_get gestureSequences sequence) of
           Some phrase \<Rightarrow> phrase
         | None \<Rightarrow> single_translation (last_gesture_key gestures))"

section \<open>The translator's state\<close>

text \<open>
  Source: \<^verbatim>\<open>src/components/SignLanguageTranslator.tsx\<close>, the \<^verbatim>\<open>useState\<close> declarations
  (lines 109 to 147) and \<^verbatim>\<open>clearTranslation\<close> (lines 730 to 736). The record lists the
  state variables of translation; the component's further state variables are the
  record's extension, which no function below touches.
\<close>

record history_entry =
  entry_text :: string
  entry_gestures :: "string list"
  entry_timestamp :: nat

record translator_state =
  isRecording :: bool
  cameraEnabled :: bool
  translatedText :: string
  isSpeaking :: bool
  lastGesture :: "string option"
  detectedGestures :: "string list"
  currentGesture :: "string option"
  lastGestureTime :: nat
  translationHistory :: "history_entry list"

text \<open>The initial values the \<^verbatim>\<open>useState\<close> calls give.\<close>

definition initial_translator_state :: translator_state where
  "initial_translator_state =
     \<lparr>isRecording = False, cameraEnabled = False, translatedText = '''', isSpeaking = False,
      lastGesture = None, detectedGestures = [], currentGesture = None, lastGestureTime = 0,
      translationHistory = []\<rparr>"

definition clearTranslation :: "'a translator_state_scheme \<Rightarrow> 'a translator_state_scheme" where
  "clearTranslation s =
     s\<lparr>translatedText := '''', detectedGestures := [], currentGesture := None,
       lastGesture := None\<rparr>"

section \<open>The profile table and its trigger\<close>

text \<open>
  Source: the database setup script (\<^verbatim>\<open>unnamed/part_000\<close>): the table
  \<^verbatim>\<open>user_profiles\<close> (lines 1 to 8), the function \<^verbatim>\<open>handle_new_user\<close> and the trigger
  \<^verbatim>\<open>on_auth_user_created\<close> (lines 45 to 59).

  A database state holds the rows of \<^verbatim>\<open>auth.users\<close> (the columns the script reads:
  \<^verbatim>\<open>id\<close> and the nullable \<^verbatim>\<open>email\<close>) and of \<^verbatim>\<open>user_profiles\<close>. The two timestamp
  columns take their defaults and play no part below; they are left out.
\<close>

record auth_user =
  au_id :: string
  au_email :: "string option"

record user_profile =
  profile_id :: string
  profile_email :: string
  profile_role :: string

record database =
  auth_users :: "auth_user list"
  user_profiles :: "user_profile list"

datatype sql_error =
  not_null_violation | check_violation | unique_violation | foreign_key_violation

text \<open>
  \<^verbatim>\<open>INSERT INTO user_profiles (id, email, role) VALUES (...)\<close> under the table's
  constraints: \<^verbatim>\<open>email TEXT NOT NULL\<close>, \<^verbatim>\<open>CHECK (role IN ('student', 'teacher'))\<close>,
  \<^verbatim>\<open>id UUID PRIMARY KEY\<close> and \<^verbatim>\<open>REFERENCES auth.users(id)\<close>. A violated constraint
  raises an error and leaves the table as it was.
\<close>

definition insert_user_profile ::
  "string \<Rightarrow> string option \<Rightarrow> string \<Rightarrow> database \<Rightarrow> sql_error + database" where
  "insert_user_profile new_id new_email new_role db =
     (case new_email of
        None \<Rightarrow> Inl not_null_violation
      | Some e \<Rightarrow>
          if new_role \<notin> {''student'', ''teacher''} then Inl check_violation
          else if new_id \<in> profile_id ` set (user_profiles db) then Inl unique_violation
          else if new_id \<notin> au_id ` set (auth_users db) then Inl foreign_key_violation
          else Inr (db\<lparr>user_profiles := user_profiles db @
                 [\<lparr>profile_id = new_id, profile_email = e, profile_role = new_role\<rparr>]\<rparr>))"

text \<open>
  The trigger function: \<^verbatim>\<open>INSERT INTO user_profiles (id, email, role) VALUES (NEW.id,
  NEW.email, 'student'); RETURN NEW;\<close>. It has no exception handler, so an error of the
  insert is an error of the function.
\<close>

definition handle_new_user :: "auth_user \<Rightarrow> database \<Rightarrow> sql_error + database" where
  "handle_new_user NEW db = insert_user_profile (au_id NEW) (au_email NEW) ''student'' db"

text \<open>
  An insert of one row into \<^verbatim>\<open>auth.users\<close>, whose primary key is \<^verbatim>\<open>id\<close>, with the
  trigger \<^verbatim>\<open>on_auth_user_created AFTER INSERT ON auth.users FOR EACH ROW\<close>: the trigger
  function runs on the table that already holds the new row, and its error aborts the
  whole insert.
\<close>

definition insert_auth_user :: "auth_user \<Rightarrow> database \<Rightarrow> sql_error + database" where
  "insert_auth_user u db =
     (if au_id u \<in> au_id ` set (auth_users db) then Inl unique_violation
      else handle_new_user u (db\<lparr>auth_users := auth_users db @ [u]\<rparr>))"

text \<open>Every profile belongs to a user: what the foreign key keeps true of the stored rows.\<close>

definition profiles_reference_users :: "database \<Rightarrow> bool" where
  "profiles_reference_users db =
     (list_all (\<lambda>p. profile_id p \<in> au_id ` set (auth_users db)) (user_profiles db))"

section \<open>The authentication context\<close>

text \<open>
  Source: \<^verbatim>\<open>src/context/AuthContext.tsx\<close>. The state variables \<^verbatim>\<open>session\<close>,
  \<^verbatim>\<open>user\<close>, \<^verbatim>\<open>userRole\<close> and \<^verbatim>\<open>isLoading\<close> are the first four fields; \<open>None\<close> is
  \<^verbatim>\<open>null\<close>. The other fields record what the functions do besides: the toasts shown, the
  pending \<^verbatim>\<open>setTimeout(() => setIsLoading(false), 1000)\<close> callbacks (by their delays) and
  the address assigned to \<^verbatim>\<open>window.location.href\<close>.
\<close>

record ext_user =
  user_id :: string
  user_email :: "string option"

record auth_session =
  session_user :: ext_user
  access_token :: string

datatype toast = Toast (variant: "string option") (title: string) (description: string)

record auth_state =
  session :: "auth_session option"
  user :: "ext_user option"
  userRole :: "string option"
  isLoading :: bool
  toasts :: "toast list"
  loading_resets :: "nat list"
  location_href :: "string option"

text \<open>\<^verbatim>\<open>error.message || fallback\<close>: the empty message is falsy.\<close>

definition message_or :: "string \<Rightarrow> string \<Rightarrow> string" where
  "message_or msg fallback = (if msg = [] then fallback else msg)"

subsection \<open>Looking up the role\<close>

text \<open>
  \<^verbatim>\<open>fetchUserRole\<close> (lines 34 to 71). The query
  \<^verbatim>\<open>supabase.from('user_profiles').select('role').eq('id', userId).single()\<close> goes to the
  hosted backend; its outcome is a parameter. It resolves with a row (\<open>RoleData\<close>, carrying
  \<^verbatim>\<open>data?.role\<close>: \<open>None\<close> when the row or its role is missing), resolves with an error
  (\<open>RoleError\<close>, carrying \<^verbatim>\<open>error.code\<close>), or rejects (\<open>RoleThrown\<close>).
\<close>

datatype role_lookup = RoleData "string option" | RoleError string | RoleThrown

text \<open>
  The failing outcomes: every outcome but a row. The code \<^verbatim>\<open>42P01\<close> says that the
  table does not exist, \<^verbatim>\<open>PGRST116\<close> that no row matched.
\<close>

definition lookup_failed :: "role_lookup \<Rightarrow> bool" where
  "lookup_failed outcome = (case outcome of RoleData _ \<Rightarrow> False | RoleError _ \<Rightarrow> True | RoleThrown \<Rightarrow> True)"

text \<open>\<^verbatim>\<open>data?.role as UserRole || 'student' as UserRole\<close>.\<close>

definition role_or_student :: "string option \<Rightarrow> string" where
  "role_or_student r = (case r of None \<Rightarrow> ''student'' | Some v \<Rightarrow> if v = [] then ''student'' else v)"

text \<open>
  The function's result is a role or \<^verbatim>\<open>null\<close> (\<open>None\<close>), which is what the callers store
  with \<^verbatim>\<open>setUserRole\<close>.
\<close>

definition fetchUserRole :: "(string \<Rightarrow> role_lookup) \<Rightarrow> string \<Rightarrow> string option" where
  "fetchUserRole select_role userId =
     (case select_role userId of
        RoleThrown \<Rightarrow> Some ''student''
      | RoleError code \<Rightarrow>
          if code = ''42P01'' then Some ''student''
          else if code = ''PGRST116'' then Some ''student''
          else Some ''student''
      | RoleData r \<Rightarrow> Some (role_or_student r))"

text \<open>
  The repository holds a second copy of the authentication context
  (\<^verbatim>\<open>unnamed/part_001\<close>), whose \<^verbatim>\<open>fetchUserRole\<close> (lines 34 to 106) differs. When no
  row matched it asks \<^verbatim>\<open>supabase.auth.getUser()\<close> for the user (a second outcome from the
  backend, a parameter here: an error, the user's email, or a rejection) and schedules, 2000
  ms later, an insert of a profile with role \<^verbatim>\<open>'student'\<close>; for an error with any other
  code it returns \<^verbatim>\<open>null\<close>. The result pairs the returned role with the scheduled
  insert, if any.
\<close>

datatype get_user = GetUserError | GetUserData "string option" | GetUserThrown

record scheduled_insert =
  delay_ms :: nat
  row_id :: string
  row_email :: "string option"
  row_role :: string

definition fetchUserRole_part_001 ::
  "(string \<Rightarrow> role_lookup) \<Rightarrow> get_user \<Rightarrow> string \<Rightarrow> string option \<times> scheduled_insert option" where
  "fetchUserRole_part_001 select_role getUser userId =
     (case select_role userId of
        RoleThrown \<Rightarrow> (Some ''student'', None)
      | RoleError code \<Rightarrow>
          if code = ''42P01'' then (Some ''student'', None)
          else if code = ''PGRST116'' then
            (case getUser of
               GetUserThrown \<Rightarrow> (Some ''student'', None)
             | GetUserError \<Rightarrow> (Some ''student'', None)
             | GetUserData email \<Rightarrow>
                 (Some ''student'',
                  Some \<lparr>delay_ms = 2000, row_id = userId, row_email = email,
                        row_role = ''student''\<rparr>))
          else (None, None)
      | RoleData r \<Rightarrow> (Some (role_or_student r), None))"

subsection \<open>Signing out\<close>

text \<open>
  \<^verbatim>\<open>signOut\<close> (lines 247 to 288). The call \<^verbatim>\<open>supabase.auth.signOut()\<close> resolves
  without an error, resolves with an error, or rejects; the outcome is a parameter, and an
  error carries its message. The result pairs what the function's promise does (\<open>Inr ()\<close>:
  it resolves; \<open>Inl msg\<close>: it rejects with the error) with the state it leaves.
\<close>

datatype sign_out_outcome = SignOutDone | SignOutError string | SignOutThrown string

definition finally_reset_loading :: "'a auth_state_scheme \<Rightarrow> 'a auth_state_scheme" where
  "finally_reset_loading s = s\<lparr>loading_resets := loading_resets s @ [1000]\<rparr>"

definition signOut ::
  "sign_out_outcome \<Rightarrow> 'a auth_state_scheme \<Rightarrow> (string + unit) \<times> 'a auth_state_scheme" where
  "signOut outcome s =
     (let s1 = s\<lparr>isLoading := True\<rparr>;
          s2 = s1\<lparr>session := None, user := None, userRole := None\<rparr>
      in case outcome of
           SignOutDone \<Rightarrow>
             (Inr (),
              finally_reset_loading
                (s2\<lparr>location_href := Some ''/'',
                    toasts := toasts s2 @
                      [Toast None ''Success'' ''You have been signed out successfully.'']\<rparr>))
         | SignOutError msg \<Rightarrow>
             (Inl msg,
              finally_reset_loading
                (s2\<lparr>toasts := toasts s2 @
                      [Toast (Some ''destructive'') ''Error''
                         (message_or msg ''Failed to sign out'')]\<rparr>))
         | SignOutThrown msg \<Rightarrow>
             (Inl msg,
              finally_reset_loading
                (s2\<lparr>toasts := toasts s2 @
                      [Toast (Some ''destructive'') ''Error''
                         (message_or msg ''Failed to sign out'')]\<rparr>)))"

subsection \<open>Signing up\<close>

text \<open>
  \<^verbatim>\<open>signUpWithEmail\<close> (lines 202 to 245). The request it sends carries the email, the
  password and a redirect address; the \<^verbatim>\<open>role\<close> argument is not part of it.
\<close>

record sign_up_request =
  req_email :: string
  req_password :: string
  req_emailRedirectTo :: string

text \<open>
  Modelled from the spec: the hosted authentication service behind
  \<^verbatim>\<open>supabase.auth.signUp\<close>, which is outside the repository. The specification says that
  a server-side trigger creates the profile row on new user signup, and the setup script
  puts that trigger on inserts into \<^verbatim>\<open>auth.users\<close>: a sign-up is the insert of one row,
  with the id the service generates (\<open>new_id\<close>) and the email of the request. The response
  is \<^verbatim>\<open>data.user\<close> (the new user's id; \<open>None\<close> is a response without a user, which
  this service never gives), or the error of the failed insert, which leaves the database
  as it was. \<open>error_message\<close> is the message the service words for such an error.
\<close>

definition auth_signUp ::
  "string \<Rightarrow> sign_up_request \<Rightarrow> database \<Rightarrow> (sql_error + string option) \<times> database" where
  "auth_signUp new_id request db =
     (case insert_auth_user \<lparr>au_id = new_id, au_email = Some (req_email request)\<rparr> db of
        Inl e \<Rightarrow> (Inl e, db)
      | Inr db' \<Rightarrow> (Inr (Some new_id), db'))"

definition error_message :: "sql_error \<Rightarrow> string" where
  "error_message e = ''Database error saving new user''"

text \<open>
  The function on the client state and the database. \<open>new_id\<close> is the id the service
  will generate and \<open>origin\<close> is \<^verbatim>\<open>window.location.origin\<close>. The result is what the
  function's promise does (\<open>Inr ()\<close>: it resolves; \<open>Inl msg\<close>: it rejects with the
  error), the client state and the database.
\<close>

definition signUpWithEmail ::
  "string \<Rightarrow> string \<Rightarrow> string \<Rightarrow> string \<Rightarrow> string \<Rightarrow> 'a auth_state_scheme \<times> database
     \<Rightarrow> (string + unit) \<times> 'a auth_state_scheme \<times> database" where
  "signUpWithEmail new_id origin email password role sdb =
     (let s1 = (fst sdb)\<lparr>isLoading := True\<rparr>;
          request = \<lparr>req_email = email, req_password = password,
                     req_emailRedirectTo = origin @ ''/auth?tab=signin''\<rparr>
      in case auth_signUp new_id request (snd sdb) of
           (Inl e, db') \<Rightarrow>
             (Inl (error_message e),
              finally_reset_loading
                (s1\<lparr>toasts := toasts s1 @
                      [Toast (Some ''destructive'') ''Error''
                         (message_or (error_message e) ''Failed to sign up'')]\<rparr>),
              db')
         | (Inr None, db') \<Rightarrow> (Inr (), finally_reset_loading s1, db')
         | (Inr (Some uid), db') \<Rightarrow>
             (Inr (),
              finally_reset_loading
                (s1\<lparr>userRole := Some role,
                    toasts := toasts s1 @
                      [Toast None ''Success''
                         ''Your account has been created successfully. Please check your email to verify your account.'']\<rparr>),
              db'))"

section \<open>Auto-saving the captions\<close>



text \<open>An integer in decimal, as \<^verbatim>\<open>toString\<close> and a template literal print it.\<close>

fun digits_of_nat :: "nat \<Rightarrow> string" where
  "digits_of_nat n =
     (if n < 10 then [''0123456789'' ! n]
      else digits_of_nat (n div 10) @ [''0123456789'' ! (n mod 10)])"

















section \<open>Sample states\<close>

text \<open>A database with one user, who has been made a teacher, and a signed-out client.\<close>

definition sample_database :: database where
  "sample_database =
     \<lparr>auth_users = [\<lparr>au_id = ''user-1'', au_email = Some ''ann@example.org''\<rparr>],
      user_profiles = [\<lparr>profile_id = ''user-1'', profile_email = ''ann@example.org'',
                        profile_role = ''teacher''\<rparr>]\<rparr>"

definition signed_out :: auth_state where
  "signed_out =
     \<lparr>session = None, user = None, userRole = None, isLoading = False, toasts = [],
      loading_resets = [], location_href = None\<rparr>"


section \<open>Facts about JavaScript numbers\<close>

lemma two_to_powr: "two_to e = 2 powr (of_int e)"
  by (simp add: two_to_def powr_real_of_int inverse_eq_divide)

lemma two_to_0: "two_to 0 = 1"
  by (simp add: two_to_def)

lemma two_to_numeral: "two_to (numeral k) = 2 ^ numeral k"
  by (simp add: two_to_def)

lemma two_to_neg_numeral: "two_to (- numeral k) = 1 / 2 ^ numeral k"
  by (simp add: two_to_def)

lemmas two_to_eval = two_to_0 two_to_numeral two_to_neg_numeral

lemma two_to_pos: "0 < two_to e"
  by (simp add: two_to_def)

lemma binade_eq: "0 < a \<Longrightarrow> two_to e \<le> a \<Longrightarrow> a < two_to (e + 1) \<Longrightarrow> binade a = e"
  by (simp add: binade_def floor_log_eq_powr_iff two_to_powr)

lemma round_half_even_nearest:
  assumes "of_int n - 1 / 2 < q" and "q < of_int n + 1 / 2"
  shows "round_half_even q = n"
proof -
  have "\<lfloor>q\<rfloor> = n \<or> \<lfloor>q\<rfloor> = n - 1"
    using assms by linarith
  then show ?thesis
  proof
    assume f: "\<lfloor>q\<rfloor> = n"
    then have "q - of_int \<lfloor>q\<rfloor> < 1 / 2" using assms by simp
    with f show ?thesis by (simp add: round_half_even_def Let_def)
  next
    assume f: "\<lfloor>q\<rfloor> = n - 1"
    then have "1 / 2 < q - of_int \<lfloor>q\<rfloor>" using assms by simp
    with f show ?thesis by (simp add: round_half_even_def Let_def)
  qed
qed

lemma round_half_even_tie_down:
  assumes "q = of_int n + 1 / 2" and "even n"
  shows "round_half_even q = n"
proof -
  have "\<lfloor>q\<rfloor> = n" using assms(1) by linarith
  with assms show ?thesis by (simp add: round_half_even_def Let_def)
qed

lemma round_half_even_tie_up:
  assumes "q = of_int n - 1 / 2" and "even n"
  shows "round_half_even q = n"
proof -
  have f: "\<lfloor>q\<rfloor> = n - 1" using assms(1) by linarith
  have "odd (n - 1)" using assms(2) by simp
  with f assms show ?thesis by (simp add: round_half_even_def Let_def)
qed

text \<open>
  Evaluating a rounding: \<open>b\<close> is the binary exponent of the exact result and \<open>n\<close> the
  significand it rounds to.
\<close>

lemma round_to_double_pos:
  assumes "0 < x" and "two_to b \<le> x" and "x < two_to (b + 1)"
    and "e = max b (- 1022)"
    and "round_half_even (x / two_to (e - 52)) = n"
    and "of_int n * two_to (e - 52) < two_to 1024"
  shows "round_to_double x = Num (of_int n * two_to (e - 52))"
proof -
  have "binade \<bar>x\<bar> = b" using assms(1,2,3) by (simp add: binade_eq)
  moreover have "\<bar>x\<bar> = x" "x \<noteq> 0" using assms(1) by simp_all
  ultimately show ?thesis
    using assms(1,4,5,6) by (simp add: round_to_double_def Let_def)
qed

lemma round_to_double_sqrt:
  assumes "0 < v" and "(two_to b)\<^sup>2 \<le> v" and "v < (two_to (b + 1))\<^sup>2"
    and "e = max b (- 1022)"
    and "((of_int n - 1 / 2) * two_to (e - 52))\<^sup>2 < v"
    and "v < ((of_int n + 1 / 2) * two_to (e - 52))\<^sup>2"
    and "1 \<le> n"
    and "of_int n * two_to (e - 52) < two_to 1024"
  shows "round_to_double (sqrt v) = Num (of_int n * two_to (e - 52))"
proof (rule round_to_double_pos [where b = b])
  let ?u = "two_to (e - 52)"
  have u: "0 < ?u" by (rule two_to_pos)
  show "0 < sqrt v" using assms(1) by simp
  show "two_to b \<le> sqrt v" using assms(2) by (rule real_le_rsqrt)
  show "sqrt v < two_to (b + 1)"
    using assms(3) two_to_pos [of "b + 1"] by (intro real_less_lsqrt) simp_all
  show "e = max b (- 1022)" by (rule assms(4))
  have lo: "(of_int n - 1 / 2) * ?u < sqrt v"
    using assms(5) by (rule real_less_rsqrt)
  have "0 \<le> (of_int n + 1 / 2) * ?u" using assms(7) u by simp
  then have hi: "sqrt v < (of_int n + 1 / 2) * ?u"
    using assms(6) by (intro real_less_lsqrt) simp_all
  show "round_half_even (sqrt v / ?u) = n"
    using lo hi u by (intro round_half_even_nearest) (simp_all add: field_simps)
  show "of_int n * ?u < two_to 1024" by (rule assms(8))
qed

lemma round_to_double_0: "round_to_double 0 = Num 0"
  by (simp add: round_to_double_def)

lemma round_to_double_minus:
  "round_to_double (- x) = js_neg (round_to_double x)"
  by (simp add: round_to_double_def js_neg_def Let_def)

lemma js_le_not_lt: "js_le a b \<Longrightarrow> \<not> js_lt b a"
  by (simp add: js_le_def)

subsection \<open>Roundings at the sample frames\<close>

lemma literal_0_1: "round_to_double 0.1 = Num (3602879701896397 / 36028797018963968)"
  by (rule round_to_double_pos [where b = "- 4" and e = "- 4" and n = "7205759403792794", THEN trans])
     (simp_all add: two_to_eval round_half_even_nearest)

lemma literal_0_2: "round_to_double 0.2 = Num (3602879701896397 / 18014398509481984)"
  by (rule round_to_double_pos [where b = "- 3" and e = "- 3" and n = "7205759403792794", THEN trans])
     (simp_all add: two_to_eval round_half_even_nearest)

lemma point_0_0: "point 0 0 = \<lparr>lm_x = Num 0, lm_y = Num 0, lm_z = Num 0\<rparr>"
  by (simp only: point_def js_literal_def round_to_double_0)

lemma euclid_same_point: "euclid Math_nearest (point 0 0) (point 0 0) = Num 0"
  by (simp add: point_0_0 euclid_def js_sub_def js_add_def js_neg_def Math_nearest_def
      round_to_double_0)

text \<open>The half-open hand: every step is exact.\<close>

lemma literal_0_125: "round_to_double 0.125 = Num (1 / 8)"
  by (rule round_to_double_pos [where b = "- 3" and e = "- 3" and n = "4503599627370496", THEN trans])
     (simp_all add: two_to_eval round_half_even_nearest)

lemma double_0_125: "round_to_double (1 / 8) = Num (1 / 8)"
  by (rule round_to_double_pos [where b = "- 3" and e = "- 3" and n = "4503599627370496", THEN trans])
     (simp_all add: two_to_eval round_half_even_nearest)

lemma square_0_125: "round_to_double (1 / 64) = Num (1 / 64)"
  by (rule round_to_double_pos [where b = "- 6" and e = "- 6" and n = "4503599627370496", THEN trans])
     (simp_all add: two_to_eval round_half_even_nearest)

lemma root_0_125: "round_to_double (sqrt (1 / 64)) = Num (1 / 8)"
  by (rule round_to_double_sqrt [where b = "- 3" and e = "- 3" and n = "4503599627370496", THEN trans])
     (simp_all add: two_to_eval power2_eq_square)

lemma point_0_125: "point 0.125 0 = \<lparr>lm_x = Num (1 / 8), lm_y = Num 0, lm_z = Num 0\<rparr>"
  by (simp only: point_def js_literal_def literal_0_125 round_to_double_0)

lemma euclid_0_125: "euclid Math_nearest (point 0 0) (point 0.125 0) = Num (1 / 8)"
proof -
  have dx: "js_sub (Num 0) (Num (1 / 8)) = Num (- (1 / 8))"
    by (simp add: js_sub_def js_add_def js_neg_def round_to_double_minus double_0_125)
  have dy: "js_sub (Num 0) (Num 0) = Num 0"
    by (simp add: js_sub_def js_add_def js_neg_def round_to_double_0)
  have px: "Math_pow2 Math_nearest (Num (- (1 / 8))) = Num (1 / 64)"
    by (simp add: Math_nearest_def square_0_125)
  have py: "Math_pow2 Math_nearest (Num 0) = Num 0"
    by (simp add: Math_nearest_def round_to_double_0)
  have s: "js_add (Num (1 / 64)) (Num 0) = Num (1 / 64)"
    by (simp add: js_add_def square_0_125)
  have d: "Math_sqrt Math_nearest (Num (1 / 64)) = Num (1 / 8)"
    by (simp add: Math_nearest_def root_0_125)
  show ?thesis
    by (simp only: euclid_def point_0_0 point_0_125 landmark.simps dx dy px py s d)
qed

text \<open>The first frame at the thresholds: the computed distance is the double 0.1.\<close>

lemma literal_b1_x: "round_to_double 0.054 = Num (7782220156096217 / 144115188075855872)"
  by (rule round_to_double_pos [where b = "- 5" and e = "- 5" and n = "7782220156096217", THEN trans])
     (simp_all add: two_to_eval round_half_even_nearest)

lemma literal_b1_y: "round_to_double 0.08416650165000325 = Num (3032417803744263 / 36028797018963968)"
  by (rule round_to_double_pos [where b = "- 4" and e = "- 4" and n = "6064835607488526", THEN trans])
     (simp_all add: two_to_eval round_half_even_nearest)

lemma double_b1_x: "round_to_double (7782220156096217 / 144115188075855872) = Num (7782220156096217 / 144115188075855872)"
  by (rule round_to_double_pos [where b = "- 5" and e = "- 5" and n = "7782220156096217", THEN trans])
     (simp_all add: two_to_eval round_half_even_nearest)

lemma double_b1_y: "round_to_double (3032417803744263 / 36028797018963968) = Num (3032417803744263 / 36028797018963968)"
  by (rule round_to_double_pos [where b = "- 4" and e = "- 4" and n = "6064835607488526", THEN trans])
     (simp_all add: two_to_eval round_half_even_nearest)

lemma square_b1_x: "round_to_double (60562950557950228089508961711089 / 20769187434139310514121985316880384) = Num (6723838214867131 / 2305843009213693952)"
  by (rule round_to_double_pos [where b = "- 9" and e = "- 9" and n = "6723838214867131", THEN trans])
     (simp_all add: two_to_eval round_half_even_nearest)

lemma square_b1_y: "round_to_double (9195557736465179552182305413169 / 1298074214633706907132624082305024) = Num (1020911992329363 / 144115188075855872)"
  by (rule round_to_double_pos [where b = "- 8" and e = "- 8" and n = "8167295938634904", THEN trans])
     (simp_all add: two_to_eval round_half_even_nearest)

lemma sum_b1: "round_to_double (23058430092136939 / 2305843009213693952) = Num (5764607523034235 / 576460752303423488)"
  by (rule round_to_double_pos [where b = "- 7" and e = "- 7" and n = "5764607523034235", THEN trans])
     (simp_all add: two_to_eval round_half_even_nearest)

lemma root_b1: "round_to_double (sqrt (5764607523034235 / 576460752303423488)) = Num (3602879701896397 / 36028797018963968)"
  by (rule round_to_double_sqrt [where b = "- 4" and e = "- 4" and n = "7205759403792794", THEN trans])
     (simp_all add: two_to_eval power2_eq_square)

lemma point_b1: "point 0.054 0.08416650165000325 = \<lparr>lm_x = Num (7782220156096217 / 144115188075855872), lm_y = Num (3032417803744263 / 36028797018963968), lm_z = Num 0\<rparr>"
  by (simp only: point_def js_literal_def literal_b1_x literal_b1_y)

lemma euclid_b1:
  "euclid Math_nearest (point 0 0) (point 0.054 0.08416650165000325) = Num (3602879701896397 / 36028797018963968)"
proof -
  have dx: "js_sub (Num 0) (Num (7782220156096217 / 144115188075855872)) = Num (- (7782220156096217 / 144115188075855872))"
    by (simp add: js_sub_def js_add_def js_neg_def round_to_double_minus double_b1_x)
  have dy: "js_sub (Num 0) (Num (3032417803744263 / 36028797018963968)) = Num (- (3032417803744263 / 36028797018963968))"
    by (simp add: js_sub_def js_add_def js_neg_def round_to_double_minus double_b1_y)
  have px: "Math_pow2 Math_nearest (Num (- (7782220156096217 / 144115188075855872))) = Num (6723838214867131 / 2305843009213693952)"
    by (simp add: Math_nearest_def square_b1_x)
  have py: "Math_pow2 Math_nearest (Num (- (3032417803744263 / 36028797018963968))) = Num (1020911992329363 / 144115188075855872)"
    by (simp add: Math_nearest_def square_b1_y)
  have s: "js_add (Num (6723838214867131 / 2305843009213693952)) (Num (1020911992329363 / 144115188075855872)) = Num (5764607523034235 / 576460752303423488)"
    by (simp add: js_add_def sum_b1)
  have d: "Math_sqrt Math_nearest (Num (5764607523034235 / 576460752303423488)) = Num (3602879701896397 / 36028797018963968)"
    by (simp add: Math_nearest_def root_b1)
  show ?thesis
    by (simp only: euclid_def point_0_0 point_b1 landmark.simps dx dy px py s d)
qed

text \<open>The second: the computed distance is the double just below 0.1.\<close>

lemma literal_b2_x: "round_to_double 0.06771707121083383 = Num (4879529226747721 / 72057594037927936)"
  by (rule round_to_double_pos [where b = "- 4" and e = "- 4" and n = "4879529226747721", THEN trans])
     (simp_all add: two_to_eval round_half_even_nearest)

lemma literal_b2_y: "round_to_double 0.07358259486201109 = Num (5302184748824117 / 72057594037927936)"
  by (rule round_to_double_pos [where b = "- 4" and e = "- 4" and n = "5302184748824117", THEN trans])
     (simp_all add: two_to_eval round_half_even_nearest)

lemma double_b2_x: "round_to_double (4879529226747721 / 72057594037927936) = Num (4879529226747721 / 72057594037927936)"
  by (rule round_to_double_pos [where b = "- 4" and e = "- 4" and n = "4879529226747721", THEN trans])
     (simp_all add: two_to_eval round_half_even_nearest)

lemma double_b2_y: "round_to_double (5302184748824117 / 72057594037927936) = Num (5302184748824117 / 72057594037927936)"
  by (rule round_to_double_pos [where b = "- 4" and e = "- 4" and n = "5302184748824117", THEN trans])
     (simp_all add: two_to_eval round_half_even_nearest)

lemma square_b2_x: "round_to_double (23809805474685212021346978693841 / 5192296858534827628530496329220096) = Num (5286838849968325 / 1152921504606846976)"
  by (rule round_to_double_pos [where b = "- 8" and e = "- 8" and n = "5286838849968325", THEN trans])
     (simp_all add: two_to_eval round_half_even_nearest)

lemma square_b2_y: "round_to_double (28113163110663064680614200829689 / 5192296858534827628530496329220096) = Num (390148512256259 / 72057594037927936)"
  by (rule round_to_double_pos [where b = "- 8" and e = "- 8" and n = "6242376196100144", THEN trans])
     (simp_all add: two_to_eval round_half_even_nearest)

lemma sum_b2: "round_to_double (11529215046068469 / 1152921504606846976) = Num (2882303761517117 / 288230376151711744)"
  by (rule round_to_double_pos [where b = "- 7" and e = "- 7" and n = "5764607523034234", THEN trans])
     (simp_all add: two_to_eval round_half_even_tie_down)

lemma root_b2: "round_to_double (sqrt (2882303761517117 / 288230376151711744)) = Num (7205759403792793 / 72057594037927936)"
  by (rule round_to_double_sqrt [where b = "- 4" and e = "- 4" and n = "7205759403792793", THEN trans])
     (simp_all add: two_to_eval power2_eq_square)

lemma point_b2: "point 0.06771707121083383 0.07358259486201109 = \<lparr>lm_x = Num (4879529226747721 / 72057594037927936), lm_y = Num (5302184748824117 / 72057594037927936), lm_z = Num 0\<rparr>"
  by (simp only: point_def js_literal_def literal_b2_x literal_b2_y)

lemma euclid_b2:
  "euclid Math_nearest (point 0 0) (point 0.06771707121083383 0.07358259486201109) = Num (7205759403792793 / 72057594037927936)"
proof -
  have dx: "js_sub (Num 0) (Num (4879529226747721 / 72057594037927936)) = Num (- (4879529226747721 / 72057594037927936))"
    by (simp add: js_sub_def js_add_def js_neg_def round_to_double_minus double_b2_x)
  have dy: "js_sub (Num 0) (Num (5302184748824117 / 72057594037927936)) = Num (- (5302184748824117 / 72057594037927936))"
    by (simp add: js_sub_def js_add_def js_neg_def round_to_double_minus double_b2_y)
  have px: "Math_pow2 Math_nearest (Num (- (4879529226747721 / 72057594037927936))) = Num (5286838849968325 / 1152921504606846976)"
    by (simp add: Math_nearest_def square_b2_x)
  have py: "Math_pow2 Math_nearest (Num (- (5302184748824117 / 72057594037927936))) = Num (390148512256259 / 72057594037927936)"
    by (simp add: Math_nearest_def square_b2_y)
  have s: "js_add (Num (5286838849968325 / 1152921504606846976)) (Num (390148512256259 / 72057594037927936)) = Num (2882303761517117 / 288230376151711744)"
    by (simp add: js_add_def sum_b2)
  have d: "Math_sqrt Math_nearest (Num (2882303761517117 / 288230376151711744)) = Num (7205759403792793 / 72057594037927936)"
    by (simp add: Math_nearest_def root_b2)
  show ?thesis
    by (simp only: euclid_def point_0_0 point_b2 landmark.simps dx dy px py s d)
qed

text \<open>The third: the computed distance is the double 0.2.\<close>

lemma literal_b3_x: "round_to_double 0.12 = Num (1080863910568919 / 9007199254740992)"
  by (rule round_to_double_pos [where b = "- 4" and e = "- 4" and n = "8646911284551352", THEN trans])
     (simp_all add: two_to_eval round_half_even_nearest)

lemma literal_b3_y: "round_to_double 0.16 = Num (5764607523034235 / 36028797018963968)"
  by (rule round_to_double_pos [where b = "- 3" and e = "- 3" and n = "5764607523034235", THEN trans])
     (simp_all add: two_to_eval round_half_even_nearest)

lemma double_b3_x: "round_to_double (1080863910568919 / 9007199254740992) = Num (1080863910568919 / 9007199254740992)"
  by (rule round_to_double_pos [where b = "- 4" and e = "- 4" and n = "8646911284551352", THEN trans])
     (simp_all add: two_to_eval round_half_even_nearest)

lemma double_b3_y: "round_to_double (5764607523034235 / 36028797018963968) = Num (5764607523034235 / 36028797018963968)"
  by (rule round_to_double_pos [where b = "- 3" and e = "- 3" and n = "5764607523034235", THEN trans])
     (simp_all add: two_to_eval round_half_even_nearest)

lemma square_b3_x: "round_to_double (1168266793170336129950248828561 / 81129638414606681695789005144064) = Num (4150517416584649 / 288230376151711744)"
  by (rule round_to_double_pos [where b = "- 7" and e = "- 7" and n = "8301034833169298", THEN trans])
     (simp_all add: two_to_eval round_half_even_nearest)

lemma square_b3_y: "round_to_double (33230699894622898206100982035225 / 1298074214633706907132624082305024) = Num (7378697629483821 / 288230376151711744)"
  by (rule round_to_double_pos [where b = "- 6" and e = "- 6" and n = "7378697629483821", THEN trans])
     (simp_all add: two_to_eval round_half_even_nearest)

lemma sum_b3: "round_to_double (5764607523034235 / 144115188075855872) = Num (5764607523034235 / 144115188075855872)"
  by (rule round_to_double_pos [where b = "- 5" and e = "- 5" and n = "5764607523034235", THEN trans])
     (simp_all add: two_to_eval round_half_even_nearest)

lemma root_b3: "round_to_double (sqrt (5764607523034235 / 144115188075855872)) = Num (3602879701896397 / 18014398509481984)"
  by (rule round_to_double_sqrt [where b = "- 3" and e = "- 3" and n = "7205759403792794", THEN trans])
     (simp_all add: two_to_eval power2_eq_square)

lemma point_b3: "point 0.12 0.16 = \<lparr>lm_x = Num (1080863910568919 / 9007199254740992), lm_y = Num (5764607523034235 / 36028797018963968), lm_z = Num 0\<rparr>"
  by (simp only: point_def js_literal_def literal_b3_x literal_b3_y)

lemma euclid_b3:
  "euclid Math_nearest (point 0 0) (point 0.12 0.16) = Num (3602879701896397 / 18014398509481984)"
proof -
  have dx: "js_sub (Num 0) (Num (1080863910568919 / 9007199254740992)) = Num (- (1080863910568919 / 9007199254740992))"
    by (simp add: js_sub_def js_add_def js_neg_def round_to_double_minus double_b3_x)
  have dy: "js_sub (Num 0) (Num (5764607523034235 / 36028797018963968)) = Num (- (5764607523034235 / 36028797018963968))"
    by (simp add: js_sub_def js_add_def js_neg_def round_to_double_minus double_b3_y)
  have px: "Math_pow2 Math_nearest (Num (- (1080863910568919 / 9007199254740992))) = Num (4150517416584649 / 288230376151711744)"
    by (simp add: Math_nearest_def square_b3_x)
  have py: "Math_pow2 Math_nearest (Num (- (5764607523034235 / 36028797018963968))) = Num (7378697629483821 / 288230376151711744)"
    by (simp add: Math_nearest_def square_b3_y)
  have s: "js_add (Num (4150517416584649 / 288230376151711744)) (Num (7378697629483821 / 288230376151711744)) = Num (5764607523034235 / 144115188075855872)"
    by (simp add: js_add_def sum_b3)
  have d: "Math_sqrt Math_nearest (Num (5764607523034235 / 144115188075855872)) = Num (3602879701896397 / 18014398509481984)"
    by (simp add: Math_nearest_def root_b3)
  show ?thesis
    by (simp only: euclid_def point_0_0 point_b3 landmark.simps dx dy px py s d)
qed

section \<open>Properties of the gesture classifier\<close>

subsection \<open>Auxiliary facts\<close>

lemma js_lt_Num: "js_lt (Num x) (Num y) \<longleftrightarrow> x < y"
  by (simp add: js_lt_def)

lemma detectGesture_measured:
  "detectGesture M f =
     (if f = [] then Inr None
      else case (thumbIndexDist M f, thumbMiddleDist M f) of
             (Some d1, Some d2) \<Rightarrow> Inr (classify d1 d2)
           | _ \<Rightarrow> Inl TypeError)"
  by (simp add: detectGesture_def thumbIndexDist_def thumbMiddleDist_def Let_def
      split: option.splits)

lemma classify_table: "classify d1 d2 = threshold_table (band_of d1) (band_of d2)"
  by (simp add: classify_def band_of_def threshold_table_def)

lemma landmark_at_update: "i \<noteq> j \<Longrightarrow> landmark_at (f[i := p]) j = landmark_at f j"
  by (simp add: landmark_at_def)

lemma thumbIndexDist_update:
  "i \<noteq> 4 \<Longrightarrow> i \<noteq> 8 \<Longrightarrow> thumbIndexDist M (f[i := p]) = thumbIndexDist M f"
  by (simp add: thumbIndexDist_def landmark_at_update)

lemma thumbMiddleDist_update:
  "i \<noteq> 4 \<Longrightarrow> i \<noteq> 12 \<Longrightarrow> thumbMiddleDist M (f[i := p]) = thumbMiddleDist M f"
  by (simp add: thumbMiddleDist_def landmark_at_update)

lemma detectGesture_update:
  "i \<notin> {4, 8, 12} \<Longrightarrow> detectGesture M (f[i := p]) = detectGesture M f"
  by (simp add: detectGesture_measured thumbIndexDist_update thumbMiddleDist_update)

lemma thumbIndexDist_Some:
  "thumbIndexDist M f = Some d \<longleftrightarrow> 8 < length f \<and> d = euclid M (f ! 4) (f ! 8)"
  by (auto simp: thumbIndexDist_def landmark_at_def)

lemma thumbMiddleDist_Some:
  "thumbMiddleDist M f = Some d \<longleftrightarrow> 12 < length f \<and> d = euclid M (f ! 4) (f ! 12)"
  by (auto simp: thumbMiddleDist_def landmark_at_def)

lemma classify_range:
  "classify d1 d2 \<in> {None, Some ''A'', Some ''B'', Some ''C'', Some ''D''}"
  by (simp add: classify_def)

lemma classify_gap_index:
  "js_le (js_literal 0.1) d1 \<Longrightarrow> js_le d1 (js_literal 0.2) \<Longrightarrow> classify d1 d2 = None"
  by (simp add: classify_def js_gt_def js_le_def)

lemma classify_gap_middle:
  "js_le (js_literal 0.1) d2 \<Longrightarrow> js_le d2 (js_literal 0.2) \<Longrightarrow> classify d1 d2 = None"
  by (simp add: classify_def js_gt_def js_le_def)

lemma detectGesture_long:
  "13 \<le> length f \<Longrightarrow>
   detectGesture M f = Inr (classify (euclid M (f ! 4) (f ! 8)) (euclid M (f ! 4) (f ! 12)))"
  by (auto simp: detectGesture_def landmark_at_def)

lemma detectGesture_short:
  "f \<noteq> [] \<Longrightarrow> length f < 13 \<Longrightarrow> detectGesture M f = Inl TypeError"
  by (auto simp: detectGesture_def landmark_at_def Let_def split: option.splits)

lemma detectGesture_Nil: "detectGesture M [] = Inr None"
  by (simp add: detectGesture_def)


subsection \<open>The classifier on the sample frames\<close>

lemma thumbIndexDist_closed_hand: "thumbIndexDist Math_nearest closed_hand = Some (Num 0)"
  by (simp add: closed_hand_def thumbIndexDist_Some euclid_same_point)

lemma thumbMiddleDist_closed_hand: "thumbMiddleDist Math_nearest closed_hand = Some (Num 0)"
  by (simp add: closed_hand_def thumbMiddleDist_Some euclid_same_point)

lemma zero_below_threshold: "js_lt (Num 0) (js_literal 0.1)"
  by (simp add: js_literal_def literal_0_1 [simplified] js_lt_Num)

lemma detectGesture_closed_hand: "detectGesture Math_nearest closed_hand = Inr (Some ''A'')"
proof -
  have "closed_hand \<noteq> []" by (simp add: closed_hand_def)
  then show ?thesis
    by (simp add: detectGesture_measured thumbIndexDist_closed_hand
        thumbMiddleDist_closed_hand classify_def zero_below_threshold)
qed

lemma length_half_open_hand: "length half_open_hand = 21"
  by (simp add: half_open_hand_def closed_hand_def)

lemma thumbIndexDist_half_open_hand:
  "thumbIndexDist Math_nearest half_open_hand = Some (Num (1 / 8))"
  by (simp add: half_open_hand_def closed_hand_def thumbIndexDist_Some euclid_0_125 [simplified])

lemma thumbMiddleDist_half_open_hand:
  "thumbMiddleDist Math_nearest half_open_hand = Some (Num (1 / 8))"
  by (simp add: half_open_hand_def closed_hand_def thumbMiddleDist_Some euclid_0_125 [simplified])

lemma eighth_between_thresholds:
  "js_le (js_literal 0.1) (Num (1 / 8)) \<and> js_le (Num (1 / 8)) (js_literal 0.2)"
  by (simp add: js_literal_def literal_0_1 [simplified] literal_0_2 [simplified] js_le_def js_lt_Num)

text \<open>
  At the thresholds the computed distance decides, not the exact one. In the first frame
  the exact distance is below one tenth, the computed one is the double 0.1, and the result
  is \<^verbatim>\<open>null\<close>.
\<close>

lemma boundary_hand_1_exact_distance:
  "sqrt ((7782220156096217 / 144115188075855872)\<^sup>2 +
         (3032417803744263 / 36028797018963968)\<^sup>2) < 1 / 10"
  by (rule real_less_lsqrt) (simp_all add: power2_eq_square)

lemma thumbIndexDist_boundary_hand_1:
  "thumbIndexDist Math_nearest boundary_hand_1 = Some (js_literal 0.1)"
  by (simp add: boundary_hand_1_def closed_hand_def thumbIndexDist_Some euclid_b1 [simplified]
      js_literal_def literal_0_1 [simplified])

lemma thumbMiddleDist_boundary_hand_1:
  "thumbMiddleDist Math_nearest boundary_hand_1 = Some (Num 0)"
  by (simp add: boundary_hand_1_def closed_hand_def thumbMiddleDist_Some euclid_same_point)

lemma detectGesture_boundary_hand_1: "detectGesture Math_nearest boundary_hand_1 = Inr None"
proof -
  have "boundary_hand_1 \<noteq> []" by (simp add: boundary_hand_1_def closed_hand_def)
  then show ?thesis
    by (simp add: detectGesture_measured thumbIndexDist_boundary_hand_1
        thumbMiddleDist_boundary_hand_1 classify_def js_gt_def js_literal_def literal_0_1 [simplified]
        literal_0_2 [simplified] js_lt_Num)
qed

text \<open>
  In the second frame the exact distance is above one tenth, the computed one is the double
  just below 0.1, and the result is \<^verbatim>\<open>"A"\<close>.
\<close>

lemma boundary_hand_2_exact_distance:
  "1 / 10 < sqrt ((4879529226747721 / 72057594037927936)\<^sup>2 +
                  (5302184748824117 / 72057594037927936)\<^sup>2)"
  by (rule real_less_rsqrt) (simp add: power2_eq_square)

lemma thumbIndexDist_boundary_hand_2:
  "thumbIndexDist Math_nearest boundary_hand_2
     = Some (Num (7205759403792793 / 72057594037927936))"
  by (simp add: boundary_hand_2_def closed_hand_def thumbIndexDist_Some euclid_b2 [simplified])

lemma thumbMiddleDist_boundary_hand_2:
  "thumbMiddleDist Math_nearest boundary_hand_2 = Some (Num 0)"
  by (simp add: boundary_hand_2_def closed_hand_def thumbMiddleDist_Some euclid_same_point)

lemma below_threshold_boundary_hand_2:
  "js_lt (Num (7205759403792793 / 72057594037927936)) (js_literal 0.1)"
  by (simp add: js_literal_def literal_0_1 [simplified] js_lt_Num)

lemma detectGesture_boundary_hand_2:
  "detectGesture Math_nearest boundary_hand_2 = Inr (Some ''A'')"
proof -
  have "boundary_hand_2 \<noteq> []" by (simp add: boundary_hand_2_def closed_hand_def)
  then show ?thesis
    by (simp add: detectGesture_measured thumbIndexDist_boundary_hand_2
        thumbMiddleDist_boundary_hand_2 classify_def below_threshold_boundary_hand_2
        zero_below_threshold)
qed

text \<open>
  In the third frame the computed distance is the double 0.2, which is above one fifth and
  not above itself: the result is \<^verbatim>\<open>null\<close>, not \<^verbatim>\<open>"B"\<close>.
\<close>

lemma thumbIndexDist_boundary_hand_3:
  "thumbIndexDist Math_nearest boundary_hand_3 = Some (js_literal 0.2)"
  by (simp add: boundary_hand_3_def closed_hand_def thumbIndexDist_Some euclid_b3 [simplified]
      js_literal_def literal_0_2 [simplified])

lemma thumbMiddleDist_boundary_hand_3:
  "thumbMiddleDist Math_nearest boundary_hand_3 = Some (Num 0)"
  by (simp add: boundary_hand_3_def closed_hand_def thumbMiddleDist_Some euclid_same_point)

lemma detectGesture_boundary_hand_3: "detectGesture Math_nearest boundary_hand_3 = Inr None"
proof -
  have "boundary_hand_3 \<noteq> []" by (simp add: boundary_hand_3_def closed_hand_def)
  then show ?thesis
    by (simp add: detectGesture_measured thumbIndexDist_boundary_hand_3
        thumbMiddleDist_boundary_hand_3 classify_def js_gt_def js_literal_def literal_0_1 [simplified]
        literal_0_2 [simplified] js_lt_Num)
qed

text \<open>
  The codes the classifier can return, on the frames that have the three landmarks or none.
\<close>

lemma detectGesture_range:
  assumes "f = [] \<or> 13 \<le> length f"
  shows "detectGesture M f \<in>
    {Inr None, Inr (Some ''A''), Inr (Some ''B''), Inr (Some ''C''), Inr (Some ''D'')}"
  using assms detectGesture_Nil [of M] detectGesture_long [of f M]
    classify_range [of "euclid M (f ! 4) (f ! 8)" "euclid M (f ! 4) (f ! 12)"]
  by auto

lemma detectGesture_never_E_to_J:
  "detectGesture M f \<notin>
     {Inr (Some ''E''), Inr (Some ''F''), Inr (Some ''G''), Inr (Some ''H''),
      Inr (Some ''I''), Inr (Some ''J'')}"
proof (cases "f = [] \<or> 13 \<le> length f")
  case True
  from detectGesture_range [OF this, of M] show ?thesis by auto
next
  case False
  then have "detectGesture M f = Inl TypeError"
    using detectGesture_short [of f M] by auto
  then show ?thesis by simp
qed

lemma detectGesture_gap_index:
  assumes "13 \<le> length f" and "thumbIndexDist M f = Some d1"
    and "js_le (js_literal 0.1) d1" and "js_le d1 (js_literal 0.2)"
  shows "detectGesture M f = Inr None"
  using assms detectGesture_long [of f M] by (simp add: thumbIndexDist_Some classify_gap_index)

lemma detectGesture_gap_middle:
  assumes "13 \<le> length f" and "thumbMiddleDist M f = Some d2"
    and "js_le (js_literal 0.1) d2" and "js_le d2 (js_literal 0.2)"
  shows "detectGesture M f = Inr None"
  using assms detectGesture_long [of f M] by (simp add: thumbMiddleDist_Some classify_gap_middle)

lemma detectGesture_half_open_hand: "detectGesture Math_nearest half_open_hand = Inr None"
  using detectGesture_gap_index [of half_open_hand Math_nearest "Num (1 / 8)"]
    eighth_between_thresholds
  by (simp add: length_half_open_hand thumbIndexDist_half_open_hand)

subsection \<open>C1: the table is over two distances, not five\<close>

text \<open>
  Claim C1 calls the classifier a threshold table over five hand-landmark distances. Five
  different distances between landmark points need at least four points, since three points
  have three distances between them. So as stated the claim needs the position of some
  landmark other than the thumb tip (4), the index tip (8) and the middle tip (12) to bear on
  the classification. None does: on the closed hand, moving the wrist (0), the ring tip (16)
  and the pinky tip (20) far beyond both thresholds leaves the result at \<^verbatim>\<open>"A"\<close>, and no
  frame and no landmark outside 4, 8 and 12 exist at which a move changes the result,
  whatever \<^verbatim>\<open>Math\<close> computes.
\<close>

theorem five_distances_counterexample:
  "detectGesture Math_nearest closed_hand = Inr (Some ''A'') \<and>
   detectGesture Math_nearest (closed_hand[0 := point 1 1, 16 := point 1 1, 20 := point 1 1])
     = Inr (Some ''A'') \<and>
   \<not> (\<exists>M i f p. i \<notin> {4, 8, 12} \<and> detectGesture M (f[i := p]) \<noteq> detectGesture M f)"
proof -
  have "detectGesture Math_nearest
          (closed_hand[0 := point 1 1, 16 := point 1 1, 20 := point 1 1])
      = detectGesture Math_nearest closed_hand"
    by (simp add: detectGesture_update)
  then show ?thesis
    using detectGesture_closed_hand detectGesture_update by auto
qed

text \<open>
  Claim C1, amended: the gesture classifier is a static if/else threshold table over two
  hand-landmark distances. For every input frame its result is fixed by the bands (below
  0.1, above 0.2, or neither) of the two Euclidean distances it computes, thumb tip to index
  tip and thumb tip to middle tip: the empty frame gives \<^verbatim>\<open>null\<close>, and a frame that
  carries the three landmarks gives the entry of the table. This holds for every
  \<^verbatim>\<open>Math\<close>. (The remaining case, a non-empty frame that lacks one of the three
  landmarks, is the subject of claim C9.)
\<close>

theorem detectGesture_two_distance_table:
  "detectGesture M f =
     (if f = [] then Inr None
      else case (thumbIndexDist M f, thumbMiddleDist M f) of
             (Some d1, Some d2) \<Rightarrow> Inr (threshold_table (band_of d1) (band_of d2))
           | _ \<Rightarrow> Inl TypeError)"
  by (simp add: detectGesture_measured classify_table split: option.splits)

subsection \<open>C2: both distances below 0.1 give "A"\<close>

text \<open>
  Claim C2: for every frame of hand landmarks in which both the thumb-tip-to-index-tip and
  the thumb-tip-to-middle-tip Euclidean distances are strictly below 0.1, \<^verbatim>\<open>detectGesture\<close>
  returns \<^verbatim>\<open>"A"\<close>. The distances are the computed ones, the threshold is the double 0.1
  and the comparison is the source's \<^verbatim>\<open><\<close>; a frame has the two distances when it
  carries the three landmarks. This holds for every \<^verbatim>\<open>Math\<close>.
\<close>

theorem detectGesture_returns_A:
  assumes "thumbIndexDist M f = Some d1" and "thumbMiddleDist M f = Some d2"
    and "js_lt d1 (js_literal 0.1)" and "js_lt d2 (js_literal 0.1)"
  shows "detectGesture M f = Inr (Some ''A'')"
proof -
  from assms(1) have "f \<noteq> []"
    by (auto simp: thumbIndexDist_Some)
  with assms show ?thesis
    by (simp add: detectGesture_measured classify_def)
qed

text \<open>
  The closed hand, and the second frame at the thresholds, whose computed distance is below
  the double 0.1 while the exact one is not.
\<close>

theorem detectGesture_returns_A_witness:
  "thumbIndexDist Math_nearest closed_hand = Some (Num 0) \<and>
   thumbMiddleDist Math_nearest closed_hand = Some (Num 0) \<and>
   js_lt (Num 0) (js_literal 0.1) \<and>
   detectGesture Math_nearest closed_hand = Inr (Some ''A'') \<and>
   thumbIndexDist Math_nearest boundary_hand_2
     = Some (Num (7205759403792793 / 72057594037927936)) \<and>
   thumbMiddleDist Math_nearest boundary_hand_2 = Some (Num 0) \<and>
   js_lt (Num (7205759403792793 / 72057594037927936)) (js_literal 0.1) \<and>
   detectGesture Math_nearest boundary_hand_2 = Inr (Some ''A'')"
  using detectGesture_returns_A [of Math_nearest closed_hand "Num 0" "Num 0"]
    detectGesture_returns_A [of Math_nearest boundary_hand_2
      "Num (7205759403792793 / 72057594037927936)" "Num 0"]
    thumbIndexDist_closed_hand thumbMiddleDist_closed_hand zero_below_threshold
    thumbIndexDist_boundary_hand_2 thumbMiddleDist_boundary_hand_2
    below_threshold_boundary_hand_2
  by blast

subsection \<open>C9: the codes the classifier can return\<close>


section \<open>Properties of the phrase lookup\<close>

subsection \<open>Auxiliary facts\<close>

lemma sequence_phrase_nonempty: "map_of gestureSequences k = Some phrase \<Longrightarrow> phrase \<noteq> []"
  by (auto simp: gestureSequences_def split: if_splits)

lemma single_translation_cases:
  "(\<exists>v. v \<in> snd ` set gestureToText \<and> single_translation k = JString v) \<or>
   single_translation k = JString ''Unknown gesture'' \<or>
   (\<exists>m. single_translation k = JInherited m)"
  by (force simp: single_translation_def truthy_value_def js_get_def
      split: option.splits js_value.splits if_splits dest!: map_of_SomeD)

lemma sequence_phrase_not_single:
  assumes "map_of gestureSequences k = Some phrase"
  shows "JString phrase \<noteq> single_translation k'"
proof -
  from assms have p: "phrase \<in> snd ` set gestureSequences"
    by (force dest!: map_of_SomeD)
  show ?thesis using p single_translation_cases [of k']
    by (auto simp: gestureSequences_def gestureToText_def)
qed

subsection \<open>C3: the empty sequence\<close>

text \<open>
  Claim C3: applied to the empty detected-gesture sequence, \<^verbatim>\<open>getTranslationFromGestures\<close>
  returns the string \<^verbatim>\<open>"Unknown gesture"\<close>. The joined sequence is the empty string and
  the last gesture is \<^verbatim>\<open>undefined\<close>; neither is a key of its table or a member every
  object inherits.
\<close>

theorem empty_sequence_unknown_gesture:
  "getTranslationFromGestures [] = JString ''Unknown gesture''"
  by (simp add: getTranslationFromGestures_def last_two_joined_def last_gesture_key_def
      single_translation_def js_get_def truthy_value_def gestureSequences_def gestureToText_def
      object_prototype_members_def)

subsection \<open>C4: the sequence table comes first\<close>

text \<open>
  Claim C4: \<^verbatim>\<open>getTranslationFromGestures\<close> maps sequences of gesture codes to phrases via
  a static lookup table, and the sequence lookup takes precedence: for every gesture list
  whose last two codes joined form a key of the sequence table, the function returns that
  table's phrase rather than the single-gesture translation of the last code. The second
  conjunct says that the two differ, so that the precedence shows in the result.
\<close>

theorem sequence_lookup_precedence:
  assumes "map_of gestureSequences (last_two_joined gestures) = Some phrase"
  shows "getTranslationFromGestures gestures = JString phrase \<and>
         getTranslationFromGestures gestures \<noteq> single_translation (last_gesture_key gestures)"
proof -
  have "getTranslationFromGestures gestures = JString phrase"
    using assms sequence_phrase_nonempty [OF assms]
    by (simp add: getTranslationFromGestures_def js_get_def truthy_value_def)
  then show ?thesis
    using sequence_phrase_not_single [OF assms] by simp
qed

theorem sequence_lookup_precedence_witness:
  "map_of gestureSequences (last_two_joined [''C'', ''A'', ''B'']) = Some ''Hello, thank you'' \<and>
   getTranslationFromGestures [''C'', ''A'', ''B''] = JString ''Hello, thank you'' \<and>
   single_translation (last_gesture_key [''C'', ''A'', ''B'']) = JString ''Thank you''"
proof -
  have h: "map_of gestureSequences (last_two_joined [''C'', ''A'', ''B''])
      = Some ''Hello, thank you''"
    by (simp add: gestureSequences_def last_two_joined_def)
  have s: "single_translation (last_gesture_key [''C'', ''A'', ''B'']) = JString ''Thank you''"
    by (simp add: single_translation_def last_gesture_key_def js_get_def truthy_value_def
        gestureToText_def)
  show ?thesis
    using h s sequence_lookup_precedence [OF h] by simp
qed

section \<open>Properties of the translator's state\<close>

subsection \<open>C10: clearing the translation\<close>

text \<open>
  Claim C10: \<^verbatim>\<open>clearTranslation\<close> resets the current translated text, the
  detected-gesture list, and the current and last gesture to their empty/initial values while
  leaving the \<^verbatim>\<open>translationHistory\<close> state unchanged. Every other state variable is left
  unchanged as well.
\<close>

theorem clearTranslation_frame:
  "translatedText (clearTranslation s) = translatedText initial_translator_state \<and>
   translatedText (clearTranslation s) = '''' \<and>
   detectedGestures (clearTranslation s) = detectedGestures initial_translator_state \<and>
   detectedGestures (clearTranslation s) = [] \<and>
   currentGesture (clearTranslation s) = currentGesture initial_translator_state \<and>
   currentGesture (clearTranslation s) = None \<and>
   lastGesture (clearTranslation s) = lastGesture initial_translator_state \<and>
   lastGesture (clearTranslation s) = None \<and>
   translationHistory (clearTranslation s) = translationHistory s \<and>
   isRecording (clearTranslation s) = isRecording s \<and>
   cameraEnabled (clearTranslation s) = cameraEnabled s \<and>
   isSpeaking (clearTranslation s) = isSpeaking s \<and>
   lastGestureTime (clearTranslation s) = lastGestureTime s \<and>
   translator_state.more (clearTranslation s) = translator_state.more s"
  by (simp add: clearTranslation_def initial_translator_state_def)

section \<open>Properties of the authentication context\<close>

subsection \<open>C7: signing out clears the session\<close>

text \<open>
  Claim C7: sign-out clears session state: after every call to \<^verbatim>\<open>signOut\<close>, whether the
  backend sign-out call succeeds or reports an error, the session, user, and userRole state
  are all \<^verbatim>\<open>null\<close>. The three are cleared before the backend is called.
\<close>

theorem signOut_clears_session:
  "session (snd (signOut outcome s)) = None \<and>
   user (snd (signOut outcome s)) = None \<and>
   userRole (snd (signOut outcome s)) = None"
  by (cases outcome) (simp_all add: signOut_def finally_reset_loading_def Let_def)

subsection \<open>C6: the fallback role\<close>

text \<open>
  In \<^verbatim>\<open>src/context/AuthContext.tsx\<close> every failing outcome of the lookup gives the role
  \<^verbatim>\<open>'student'\<close>.
\<close>

lemma fetchUserRole_fallback:
  "lookup_failed (select_role userId) \<Longrightarrow> fetchUserRole select_role userId = Some ''student''"
  by (simp add: fetchUserRole_def lookup_failed_def split: role_lookup.splits)

text \<open>
  In the second copy the table-missing, no-row and rejected outcomes give \<^verbatim>\<open>'student'\<close>
  too.
\<close>

lemma fetchUserRole_part_001_fallback:
  "select_role userId \<in> {RoleError ''42P01'', RoleError ''PGRST116'', RoleThrown} \<Longrightarrow>
   fst (fetchUserRole_part_001 select_role getUser userId) = Some ''student''"
  by (auto simp: fetchUserRole_part_001_def split: get_user.splits)

text \<open>
  Claim C6: for every failing outcome of the user-profile role lookup (table does not exist,
  no matching row, any other database error, or a thrown exception), \<^verbatim>\<open>fetchUserRole\<close>
  returns the safe fallback role \<^verbatim>\<open>"student"\<close> rather than propagating the error.

  The copy of the function in \<^verbatim>\<open>unnamed/part_001\<close> breaks this for any other database
  error. When the lookup resolves with the error code \<^verbatim>\<open>PGRST301\<close> (the request's
  token was not accepted), it returns \<^verbatim>\<open>null\<close>, where the function in
  \<^verbatim>\<open>src/context/AuthContext.tsx\<close> returns \<^verbatim>\<open>'student'\<close>.
\<close>

theorem fetchUserRole_part_001_other_error_null:
  "lookup_failed (RoleError ''PGRST301'') \<and>
   fetchUserRole_part_001 (\<lambda>userId. RoleError ''PGRST301'') (GetUserData (Some ''ann@example.org''))
     ''user-1'' = (None, None) \<and>
   fetchUserRole (\<lambda>userId. RoleError ''PGRST301'') ''user-1'' = Some ''student''"
  by (simp add: fetchUserRole_part_001_def fetchUserRole_def lookup_failed_def)

section \<open>Properties of sign-up and the profile trigger\<close>

subsection \<open>Auxiliary facts\<close>

lemma insert_auth_user_fresh:
  assumes "new_id \<notin> au_id ` set (auth_users db)"
    and "new_id \<notin> profile_id ` set (user_profiles db)"
  shows "insert_auth_user \<lparr>au_id = new_id, au_email = Some email\<rparr> db =
     Inr (db\<lparr>auth_users := auth_users db @ [\<lparr>au_id = new_id, au_email = Some email\<rparr>],
             user_profiles := user_profiles db @
               [\<lparr>profile_id = new_id, profile_email = email, profile_role = ''student''\<rparr>]\<rparr>)"
  using assms by (simp add: insert_auth_user_def handle_new_user_def insert_user_profile_def)

lemma insert_auth_user_Inr:
  assumes "insert_auth_user \<lparr>au_id = new_id, au_email = Some email\<rparr> db = Inr db'"
  shows "db' = db\<lparr>auth_users := auth_users db @ [\<lparr>au_id = new_id, au_email = Some email\<rparr>],
             user_profiles := user_profiles db @
               [\<lparr>profile_id = new_id, profile_email = email, profile_role = ''student''\<rparr>]\<rparr>"
  using assms
  by (auto simp: insert_auth_user_def handle_new_user_def insert_user_profile_def
      split: if_splits)

lemma fresh_profile:
  "profiles_reference_users db \<Longrightarrow> new_id \<notin> au_id ` set (auth_users db) \<Longrightarrow>
   new_id \<notin> profile_id ` set (user_profiles db)"
  by (auto simp: profiles_reference_users_def list_all_iff)

text \<open>The trigger keeps every profile with its user.\<close>

lemma insert_auth_user_keeps_reference:
  assumes "profiles_reference_users db" and "insert_auth_user u db = Inr db'"
  shows "profiles_reference_users db'"
  using assms
  by (auto simp: insert_auth_user_def handle_new_user_def insert_user_profile_def
      profiles_reference_users_def list_all_iff split: if_splits option.splits)

lemma signUp_database:
  "snd (snd (signUpWithEmail new_id origin email password role (s, db))) =
   snd (auth_signUp new_id \<lparr>req_email = email, req_password = password,
                     req_emailRedirectTo = origin @ ''/auth?tab=signin''\<rparr> db)"
  by (simp add: signUpWithEmail_def Let_def split: prod.splits sum.splits option.splits)

lemma signUp_result:
  "fst (signUpWithEmail new_id origin email password role (s, db)) = Inr () \<longleftrightarrow>
   (\<exists>db'. insert_auth_user \<lparr>au_id = new_id, au_email = Some email\<rparr> db = Inr db')"
  by (auto simp: signUpWithEmail_def auth_signUp_def Let_def
      split: prod.splits sum.splits option.splits)

subsection \<open>C5: a new user's profile has the role student\<close>

text \<open>
  Claim C5: on every new user signup, a profile row is created in \<^verbatim>\<open>user_profiles\<close> for
  the new user with default role \<^verbatim>\<open>"student"\<close> (by the server-side trigger on
  \<^verbatim>\<open>auth.users\<close> insert), regardless of the role argument passed to
  \<^verbatim>\<open>signUpWithEmail\<close>.

  Whenever the sign-up goes through, the database it leaves is the old one with the new
  user's row and, from the trigger, a profile row of role \<^verbatim>\<open>'student'\<close> for that user.
  It does go through for every id that is new to a database whose profiles all belong to
  users, and the client then holds the role that was passed. The database left behind is the
  same for any two role arguments.
\<close>

theorem signup_creates_student_profile:
  "(fst (signUpWithEmail new_id origin email password role (s, db)) = Inr () \<longrightarrow>
      snd (snd (signUpWithEmail new_id origin email password role (s, db))) =
        db\<lparr>auth_users := auth_users db @ [\<lparr>au_id = new_id, au_email = Some email\<rparr>],
           user_profiles := user_profiles db @
             [\<lparr>profile_id = new_id, profile_email = email, profile_role = ''student''\<rparr>]\<rparr>) \<and>
   (new_id \<notin> au_id ` set (auth_users db) \<and> profiles_reference_users db \<longrightarrow>
      fst (signUpWithEmail new_id origin email password role (s, db)) = Inr () \<and>
      userRole (fst (snd (signUpWithEmail new_id origin email password role (s, db))))
        = Some role) \<and>
   snd (snd (signUpWithEmail new_id origin email password role (s, db))) =
     snd (snd (signUpWithEmail new_id origin email password role' (s, db)))"
proof -
  let ?u = "\<lparr>au_id = new_id, au_email = Some email\<rparr>"
  have created: "snd (snd (signUpWithEmail new_id origin email password role (s, db))) =
        db\<lparr>auth_users := auth_users db @ [?u],
           user_profiles := user_profiles db @
             [\<lparr>profile_id = new_id, profile_email = email, profile_role = ''student''\<rparr>]\<rparr>"
    if "fst (signUpWithEmail new_id origin email password role (s, db)) = Inr ()"
  proof -
    from that obtain db' where d: "insert_auth_user ?u db = Inr db'"
      by (auto simp: signUp_result)
    then show ?thesis
      using insert_auth_user_Inr [OF d] by (simp add: signUp_database auth_signUp_def)
  qed
  have succeeds: "fst (signUpWithEmail new_id origin email password role (s, db)) = Inr () \<and>
      userRole (fst (snd (signUpWithEmail new_id origin email password role (s, db))))
        = Some role"
    if "new_id \<notin> au_id ` set (auth_users db)" "profiles_reference_users db"
    using insert_auth_user_fresh [OF that(1) fresh_profile [OF that(2) that(1)], of email]
    by (simp add: signUpWithEmail_def auth_signUp_def Let_def finally_reset_loading_def)
  have any_role: "snd (snd (signUpWithEmail new_id origin email password role (s, db))) =
     snd (snd (signUpWithEmail new_id origin email password role' (s, db)))"
    by (simp add: signUp_database)
  show ?thesis
    using created succeeds any_role by blast
qed

theorem signup_creates_student_profile_witness:
  "''user-2'' \<notin> au_id ` set (auth_users sample_database) \<and>
   profiles_reference_users sample_database \<and>
   fst (signUpWithEmail ''user-2'' ''https://app'' ''bob@example.org'' ''secret'' ''teacher''
          (signed_out, sample_database)) = Inr () \<and>
   userRole (fst (snd (signUpWithEmail ''user-2'' ''https://app'' ''bob@example.org''
          ''secret'' ''teacher'' (signed_out, sample_database)))) = Some ''teacher'' \<and>
   user_profiles (snd (snd (signUpWithEmail ''user-2'' ''https://app'' ''bob@example.org''
          ''secret'' ''teacher'' (signed_out, sample_database)))) =
     [\<lparr>profile_id = ''user-1'', profile_email = ''ann@example.org'', profile_role = ''teacher''\<rparr>,
      \<lparr>profile_id = ''user-2'', profile_email = ''bob@example.org'', profile_role = ''student''\<rparr>]"
proof -
  have f: "''user-2'' \<notin> au_id ` set (auth_users sample_database)"
    by (simp add: sample_database_def)
  have k: "profiles_reference_users sample_database"
    by (simp add: sample_database_def profiles_reference_users_def)
  show ?thesis
    using f k
      signup_creates_student_profile [of "''user-2''" "''https://app''" "''bob@example.org''"
        "''secret''" "''teacher''" signed_out sample_database "''teacher''"]
    by (simp add: sample_database_def)
qed

section \<open>Properties of the caption auto-save\<close>

subsection \<open>Auxiliary facts\<close>

lemma digits_of_nat_digit: "n < 10 \<Longrightarrow> digits_of_nat n = [''0123456789'' ! n]"
  by simp




















subsection \<open>C8: the save is immediate; the timer is for the status\<close>




end
